theory Spec2Isabelle
  imports Complex_Main
begin

section \<open>Floating-point samples\<close>

text \<open>
  The script computes on numpy arrays of 64-bit floating-point numbers. A sample is a
  finite number, an infinity or a NaN. The model keeps what decides the behaviour of the
  script: a result whose magnitude reaches the overflow threshold becomes an infinity,
  infinities and NaN propagate as in IEEE 754, and comparisons with NaN are false. A
  finite result below the threshold is kept as the exact real number (its rounding to 53
  bits is not modelled), and zero carries no sign.
\<close>

datatype f64 = Fin real | PInf | NInf | NaN

text \<open>
  The smallest magnitude that rounds to an infinity: the largest finite number
  \<open>2^1024 - 2^971\<close> plus half a unit in its last place.
\<close>

definition f64_overflow :: real where
  "f64_overflow = 2 ^ 1024 - 2 ^ 970"

definition ovf :: "real \<Rightarrow> f64" where
  "ovf r = (if f64_overflow \<le> r then PInf
            else if r \<le> - f64_overflow then NInf
            else Fin r)"

fun fsub :: "f64 \<Rightarrow> f64 \<Rightarrow> f64" where
  "fsub NaN y = NaN"
| "fsub x NaN = NaN"
| "fsub (Fin a) (Fin b) = ovf (a - b)"
| "fsub (Fin a) PInf = NInf"
| "fsub (Fin a) NInf = PInf"
| "fsub PInf PInf = NaN"
| "fsub PInf y = PInf"
| "fsub NInf NInf = NaN"
| "fsub NInf y = NInf"

fun fmul :: "f64 \<Rightarrow> f64 \<Rightarrow> f64" where
  "fmul NaN y = NaN"
| "fmul x NaN = NaN"
| "fmul (Fin a) (Fin b) = ovf (a * b)"
| "fmul (Fin a) PInf = (if a = 0 then NaN else if 0 < a then PInf else NInf)"
| "fmul (Fin a) NInf = (if a = 0 then NaN else if 0 < a then NInf else PInf)"
| "fmul PInf (Fin b) = (if b = 0 then NaN else if 0 < b then PInf else NInf)"
| "fmul NInf (Fin b) = (if b = 0 then NaN else if 0 < b then NInf else PInf)"
| "fmul PInf PInf = PInf"
| "fmul PInf NInf = NInf"
| "fmul NInf PInf = NInf"
| "fmul NInf NInf = PInf"

fun fdiv :: "f64 \<Rightarrow> f64 \<Rightarrow> f64" where
  "fdiv NaN y = NaN"
| "fdiv x NaN = NaN"
| "fdiv (Fin a) (Fin b) =
     (if b = 0 then (if a = 0 then NaN else if 0 < a then PInf else NInf)
      else ovf (a / b))"
| "fdiv (Fin a) PInf = Fin 0"
| "fdiv (Fin a) NInf = Fin 0"
| "fdiv PInf (Fin b) = (if 0 \<le> b then PInf else NInf)"
| "fdiv NInf (Fin b) = (if 0 \<le> b then NInf else PInf)"
| "fdiv PInf y = NaN"
| "fdiv NInf y = NaN"

text \<open>The comparison \<open>x < y\<close>; it is false when either side is NaN.\<close>

fun flt :: "f64 \<Rightarrow> f64 \<Rightarrow> bool" where
  "flt NaN y = False"
| "flt x NaN = False"
| "flt (Fin a) (Fin b) = (a < b)"
| "flt (Fin a) PInf = True"
| "flt (Fin a) NInf = False"
| "flt PInf y = False"
| "flt NInf NInf = False"
| "flt NInf y = True"

text \<open>
  \<open>np.minimum\<close> and \<open>np.maximum\<close> on two samples: NaN wins, otherwise the
  smaller (larger) one.
\<close>

definition fmin :: "f64 \<Rightarrow> f64 \<Rightarrow> f64" where
  "fmin x y = (if x = NaN \<or> y = NaN then NaN else if flt y x then y else x)"

definition fmax :: "f64 \<Rightarrow> f64 \<Rightarrow> f64" where
  "fmax x y = (if x = NaN \<or> y = NaN then NaN else if flt x y then y else x)"

section \<open>Arrays and exceptions\<close>

text \<open>
  A two-dimensional array is modelled by its shape and its samples in row-major order,
  which is how numpy stores a C-contiguous array. A well-formed array holds exactly
  \<open>nrows * ncols\<close> samples.
\<close>

record 'a ndarray =
  nrows :: nat
  ncols :: nat
  samples :: "'a list"

definition wf_array :: "'a ndarray \<Rightarrow> bool" where
  "wf_array a = (length (samples a) = nrows a * ncols a)"

text \<open>The exceptions the script can meet.\<close>

datatype exn = FileNotFoundError | PermissionError | ValueError | IndexError | NameError

text \<open>
  What \<open>tifffile.imread\<close> decodes: integer samples (of any width and signedness) or
  floating-point samples. \<open>img.astype(float)\<close> converts integers to the nearest
  64-bit float, ties to the even mantissa: integers below \<open>2^53\<close> in magnitude are
  exact, larger ones keep their 53 leading bits.
\<close>

datatype decoded = IntPixels "int ndarray" | FloatPixels "f64 ndarray"

fun bit_length :: "nat \<Rightarrow> nat" where
  "bit_length n = (if n = 0 then 0 else Suc (bit_length (n div 2)))"

declare bit_length.simps [simp del]

definition round53 :: "nat \<Rightarrow> nat" where
  "round53 n =
     (if bit_length n \<le> 53 then n
      else
        let e = bit_length n - 53;
            q = n div 2 ^ e;
            r = n mod 2 ^ e;
            half = 2 ^ (e - 1);
            q' = (if half < r \<or> (r = half \<and> odd q) then q + 1 else q)
        in q' * 2 ^ e)"

definition int_to_f64 :: "int \<Rightarrow> f64" where
  "int_to_f64 i =
     (if 0 \<le> i then ovf (real (round53 (nat i)))
      else ovf (- real (round53 (nat (- i)))))"

fun astype_float :: "decoded \<Rightarrow> f64 ndarray" where
  "astype_float (IntPixels a) =
     \<lparr>nrows = nrows a, ncols = ncols a, samples = map int_to_f64 (samples a)\<rparr>"
| "astype_float (FloatPixels a) = a"

definition zeros :: "nat \<Rightarrow> nat \<Rightarrow> f64 ndarray" where
  "zeros h w = \<lparr>nrows = h, ncols = w, samples = replicate (h * w) (Fin 0)\<rparr>"

section \<open>Normalisation (lines 44 to 49 of load_and_normalize)\<close>

text \<open>
  \<open>img.min()\<close> and \<open>img.max()\<close> reduce over all samples; on an array without
  samples numpy raises ValueError, which the caller of \<open>amin\<close> and \<open>amax\<close> checks.
\<close>

definition amin :: "f64 list \<Rightarrow> f64" where
  "amin xs = fold fmin (tl xs) (hd xs)"

definition amax :: "f64 list \<Rightarrow> f64" where
  "amax xs = fold fmax (tl xs) (hd xs)"

text \<open>
  The normalisation statements, with one observation added: the first component of the
  result is the divisor of \<open>img /= img.max()\<close> when that statement runs, and
  \<open>None\<close> when the guard \<open>img.max() > 0\<close> skips it.
\<close>

definition normalize_steps :: "f64 ndarray \<Rightarrow> exn + (f64 option \<times> f64 ndarray)" where
  "normalize_steps img =
     (if samples img = [] then Inl ValueError
      else
        let lo = amin (samples img);
            img1 = img\<lparr>samples := map (\<lambda>x. fsub x lo) (samples img)\<rparr>;
            hi = amax (samples img1)
        in if flt (Fin 0) hi
           then Inr (Some hi, img1\<lparr>samples := map (\<lambda>x. fdiv x hi) (samples img1)\<rparr>)
           else Inr (None, img1))"

definition normalize :: "f64 ndarray \<Rightarrow> exn + f64 ndarray" where
  "normalize img = map_sum id snd (normalize_steps img)"

section \<open>Three-channel arrays, colorize and create_merge\<close>

text \<open>
  An array of shape \<open>(h, w, 3)\<close> is a row-major list of pixels, each pixel holding its
  three channel values in the order of the last axis: index 0 red, 1 green, 2 blue.
\<close>

type_synonym pixel = "f64 \<times> f64 \<times> f64"

record rgb_array =
  rgb_h :: nat
  rgb_w :: nat
  pixels :: "pixel list"

definition wf_rgb :: "rgb_array \<Rightarrow> bool" where
  "wf_rgb a = (length (pixels a) = rgb_h a * rgb_w a)"

definition zeros3 :: "nat \<Rightarrow> nat \<Rightarrow> rgb_array" where
  "zeros3 h w = \<lparr>rgb_h = h, rgb_w = w, pixels = replicate (h * w) (Fin 0, Fin 0, Fin 0)\<rparr>"

fun px_get :: "nat \<Rightarrow> pixel \<Rightarrow> f64" where
  "px_get 0 (r, g, b) = r"
| "px_get (Suc 0) (r, g, b) = g"
| "px_get (Suc (Suc n)) (r, g, b) = b"

fun px_set :: "nat \<Rightarrow> f64 \<Rightarrow> pixel \<Rightarrow> pixel" where
  "px_set 0 v (r, g, b) = (v, g, b)"
| "px_set (Suc 0) v (r, g, b) = (r, v, b)"
| "px_set (Suc (Suc n)) v (r, g, b) = (r, g, v)"

text \<open>The plane \<open>a[..., c]\<close> of a three-channel array, in row-major order.\<close>

definition channel :: "nat \<Rightarrow> rgb_array \<Rightarrow> f64 list" where
  "channel c a = map (px_get c) (pixels a)"

text \<open>
  numpy broadcasts the right-hand side of an assignment to the shape of the target: along
  each axis the source length equals the target length or is 1 (and is then repeated);
  otherwise the assignment raises ValueError, here \<open>None\<close>.
\<close>

definition broadcast_to :: "nat \<Rightarrow> nat \<Rightarrow> f64 ndarray \<Rightarrow> f64 list option" where
  "broadcast_to h w a =
     (if (nrows a = h \<or> nrows a = 1) \<and> (ncols a = w \<or> ncols a = 1)
      then
        let row_wise = (if ncols a = w then samples a
                        else concat (map (replicate w) (samples a)));
            full = (if nrows a = h then row_wise else concat (replicate h row_wise))
        in Some full
      else None)"

text \<open>The statement \<open>dst[..., c] = src\<close>.\<close>

definition assign_channel :: "nat \<Rightarrow> f64 ndarray \<Rightarrow> rgb_array \<Rightarrow> exn + rgb_array" where
  "assign_channel c src dst =
     (case broadcast_to (rgb_h dst) (rgb_w dst) src of
        None \<Rightarrow> Inl ValueError
      | Some vs \<Rightarrow> Inr (dst\<lparr>pixels := map2 (px_set c) vs (pixels dst)\<rparr>))"

definition colorize :: "f64 ndarray \<Rightarrow> string \<Rightarrow> exn + rgb_array" where
  "colorize img_data color =
     (let h = nrows img_data; w = ncols img_data;
          rgb = zeros3 h w
      in if color = ''green'' then assign_channel 1 img_data rgb
         else if color = ''red'' then assign_channel 0 img_data rgb
         else Inr rgb)"

text \<open>
  \<open>np.clip(x, lo, hi)\<close> on one sample is \<open>minimum(maximum(x, lo), hi)\<close>; a
  NaN sample stays NaN.
\<close>

definition clip :: "f64 \<Rightarrow> f64 \<Rightarrow> f64 \<Rightarrow> f64" where
  "clip lo hi x = fmin (fmax x lo) hi"

definition clip_pixel :: "pixel \<Rightarrow> pixel" where
  "clip_pixel p =
     (case p of (r, g, b) \<Rightarrow>
        (clip (Fin 0) (Fin 1) r, clip (Fin 0) (Fin 1) g, clip (Fin 0) (Fin 1) b))"

definition create_merge :: "f64 ndarray \<Rightarrow> f64 ndarray \<Rightarrow> exn + rgb_array" where
  "create_merge green_img red_img =
     (let h = nrows green_img; w = ncols green_img;
          merge = zeros3 h w
      in case assign_channel 1 green_img merge of
           Inl e \<Rightarrow> Inl e
         | Inr merge1 \<Rightarrow>
             (case assign_channel 0 red_img merge1 of
                Inl e \<Rightarrow> Inl e
              | Inr merge2 \<Rightarrow> Inr (merge2\<lparr>pixels := map clip_pixel (pixels merge2)\<rparr>)))"

section \<open>Effects: console output and drawing calls\<close>

text \<open>
  The rectangle patch of the scale bar, and the calls the script makes on the console and
  on the plotting library, in the order it makes them. An axes cell is named by its row
  and column in the grid.
\<close>

record rect =
  rect_x :: f64
  rect_y :: f64
  rect_width :: f64
  rect_height :: f64
  rect_color :: string

datatype event =
    Print string
  | Subplots nat nat
  | SubplotsAdjust
  | Imshow "nat \<times> nat" rgb_array
  | ClearAxes "nat \<times> nat"
  | AxText "nat \<times> nat" string
  | SetTitle "nat \<times> nat" string
  | AddPatch "nat \<times> nat" rect
  | FigText string
  | Savefig string
  | Show

text \<open>
  A computation yields the events it has emitted and then a value or the exception that
  stopped it; events emitted before an exception stay emitted.
\<close>

type_synonym 'a io = "event list \<times> (exn + 'a)"

definition ret :: "'a \<Rightarrow> 'a io" where
  "ret x = ([], Inr x)"

definition raise :: "exn \<Rightarrow> 'a io" where
  "raise e = ([], Inl e)"

definition emit :: "event \<Rightarrow> unit io" where
  "emit ev = ([ev], Inr ())"

definition lift :: "exn + 'a \<Rightarrow> 'a io" where
  "lift r = ([], r)"

definition bind_io :: "'a io \<Rightarrow> ('a \<Rightarrow> 'b io) \<Rightarrow> 'b io" where
  "bind_io m f =
     (case m of
        (es, Inl e) \<Rightarrow> (es, Inl e)
      | (es, Inr x) \<Rightarrow> (case f x of (es', r) \<Rightarrow> (es @ es', r)))"

text \<open>Indexing a Python list with a non-negative index.\<close>

definition index_py :: "'a list \<Rightarrow> nat \<Rightarrow> 'a io" where
  "index_py xs i = (if i < length xs then ret (xs ! i) else raise IndexError)"

section \<open>load_and_normalize\<close>

text \<open>
  \<open>tifffile.imread\<close> is the decoding collaborator: a function from a path to the
  decoded array or to the exception the read raises. Only FileNotFoundError is caught;
  the handler prints and returns the 100 by 100 placeholder without normalising it.
\<close>

type_synonym reader = "string \<Rightarrow> exn + decoded"

definition load_and_normalize :: "reader \<Rightarrow> string \<Rightarrow> (f64 ndarray) io" where
  "load_and_normalize imread filepath =
     (case imread filepath of
        Inl e \<Rightarrow>
          (if e = FileNotFoundError
           then bind_io (emit (Print (''Error: File not found: '' @ filepath)))
                  (\<lambda>_. ret (zeros 100 100))
           else raise e)
      | Inr img \<Rightarrow> lift (normalize (astype_float img)))"

section \<open>generate_figure\<close>

text \<open>
  The module-level configuration constants are gathered in a record, so that the
  script can be run on any configuration; \<open>default_config\<close> holds the values of the
  source.
\<close>

record config =
  COL_LABELS :: "string list"
  ROW_LABELS :: "string list"
  file_matrix :: "string list list"
  ADD_SCALEBAR :: bool
  PIXELS_PER_MICRON :: real
  SCALE_BAR_LENGTH_UM :: real


text \<open>
  \<open>plt.subplots(nrows, ncols)\<close> with its default \<open>squeeze=True\<close>: matplotlib
  refuses a grid without columns (ValueError), returns a one-dimensional array of axes
  for a single column, and a two-dimensional array otherwise. The script always asks for
  three rows.
\<close>

datatype axes_grid = Axes1D nat | Axes2D nat nat

definition subplots :: "nat \<Rightarrow> nat \<Rightarrow> axes_grid io" where
  "subplots num_rows num_cols =
     (if num_rows = 0 \<or> num_cols = 0 then raise ValueError
      else bind_io (emit (Subplots num_rows num_cols))
             (\<lambda>_. ret (if num_rows = 1 \<or> num_cols = 1
                        then Axes1D (num_rows * num_cols)
                        else Axes2D num_rows num_cols)))"

text \<open>
  \<open>axes[r, c]\<close>: two indices into a one-dimensional array raise IndexError; a negative
  column index counts from the end.
\<close>

definition axes_at :: "axes_grid \<Rightarrow> nat \<Rightarrow> int \<Rightarrow> (nat \<times> nat) io" where
  "axes_at axes r c =
     (case axes of
        Axes1D n \<Rightarrow> raise IndexError
      | Axes2D h w \<Rightarrow>
          (let j = (if c < 0 then int w + c else c)
           in if r < h \<and> 0 \<le> j \<and> j < int w then ret (r, nat j) else raise IndexError))"

text \<open>
  Lines 141 to 149: the rectangle of the scale bar. The two calibration constants are
  finite floating-point numbers; the image dimensions are integers, converted to floating
  point where they meet one.
\<close>

definition scale_bar_rect :: "real \<Rightarrow> real \<Rightarrow> nat \<Rightarrow> nat \<Rightarrow> rect" where
  "scale_bar_rect length_um pixels_per_micron img_h img_w =
     (let bar_len_px = fmul (Fin length_um) (Fin pixels_per_micron)
      in \<lparr>rect_x = fsub (fsub (int_to_f64 (int img_w)) bar_len_px)
                      (fmul (int_to_f64 (int img_w)) (Fin 0.05)),
          rect_y = fsub (int_to_f64 (int img_h)) (fmul (int_to_f64 (int img_h)) (Fin 0.1)),
          rect_width = bar_len_px,
          rect_height = fmul (int_to_f64 (int img_h)) (Fin 0.02),
          rect_color = ''yellow''\<rparr>)"

text \<open>Lines 126 to 133: the row labels, drawn in the first column only.\<close>

definition row_labels_step :: "config \<Rightarrow> nat \<times> nat \<Rightarrow> nat \<times> nat \<Rightarrow> nat \<times> nat \<Rightarrow> unit io" where
  "row_labels_step cfg ax_g ax_r ax_m =
     bind_io (index_py (ROW_LABELS cfg) 0) (\<lambda>l0.
     bind_io (emit (AxText ax_g l0)) (\<lambda>_.
     bind_io (index_py (ROW_LABELS cfg) 1) (\<lambda>l1.
     bind_io (emit (AxText ax_r l1)) (\<lambda>_.
     bind_io (index_py (ROW_LABELS cfg) 2) (\<lambda>l2.
     emit (AxText ax_m l2))))))"

text \<open>Lines 104 to 136: placing the three panels of one column.\<close>

definition place_column ::
  "config \<Rightarrow> axes_grid \<Rightarrow> nat \<Rightarrow> rgb_array \<Rightarrow> rgb_array \<Rightarrow> rgb_array \<Rightarrow> unit io" where
  "place_column cfg axes col_idx vis_green vis_red vis_merge =
     bind_io (axes_at axes 0 (int col_idx)) (\<lambda>ax_g.
     bind_io (emit (Imshow ax_g vis_green)) (\<lambda>_.
     bind_io (axes_at axes 1 (int col_idx)) (\<lambda>ax_r.
     bind_io (emit (Imshow ax_r vis_red)) (\<lambda>_.
     bind_io (axes_at axes 2 (int col_idx)) (\<lambda>ax_m.
     bind_io (emit (Imshow ax_m vis_merge)) (\<lambda>_.
     bind_io (emit (ClearAxes ax_g)) (\<lambda>_.
     bind_io (emit (ClearAxes ax_r)) (\<lambda>_.
     bind_io (emit (ClearAxes ax_m)) (\<lambda>_.
     bind_io (if col_idx = 0 then row_labels_step cfg ax_g ax_r ax_m else ret ()) (\<lambda>_.
     bind_io (axes_at axes 0 (int col_idx)) (\<lambda>ax_t.
     bind_io (index_py (COL_LABELS cfg) col_idx) (\<lambda>title.
     emit (SetTitle ax_t title)))))))))))))"

text \<open>
  Lines 92 to 102: loading and colouring the two images of one column. The value of the
  body is \<open>raw_green\<close>, the variable the scale bar reads after the loop.
\<close>

definition column_body :: "config \<Rightarrow> reader \<Rightarrow> axes_grid \<Rightarrow> nat \<Rightarrow> (f64 ndarray) io" where
  "column_body cfg imread axes col_idx =
     bind_io (index_py (file_matrix cfg) 0) (\<lambda>green_row.
     bind_io (index_py green_row col_idx) (\<lambda>g_path.
     bind_io (index_py (file_matrix cfg) 1) (\<lambda>red_row.
     bind_io (index_py red_row col_idx) (\<lambda>r_path.
     bind_io (load_and_normalize imread g_path) (\<lambda>raw_green.
     bind_io (load_and_normalize imread r_path) (\<lambda>raw_red.
     bind_io (lift (colorize raw_green ''green'')) (\<lambda>vis_green.
     bind_io (lift (colorize raw_red ''red'')) (\<lambda>vis_red.
     bind_io (lift (create_merge raw_green raw_red)) (\<lambda>vis_merge.
     bind_io (place_column cfg axes col_idx vis_green vis_red vis_merge) (\<lambda>_.
     ret raw_green))))))))))"

text \<open>
  The loop over \<open>range(num_cols)\<close>. The last argument is \<open>raw_green\<close> as the loop
  leaves it: unbound (\<open>None\<close>) until a column has been processed.
\<close>

fun columns_loop ::
  "config \<Rightarrow> reader \<Rightarrow> axes_grid \<Rightarrow> nat list \<Rightarrow> f64 ndarray option \<Rightarrow> (f64 ndarray option) io" where
  "columns_loop cfg imread axes [] raw_green = ret raw_green"
| "columns_loop cfg imread axes (col_idx # rest) raw_green =
     bind_io (column_body cfg imread axes col_idx)
       (\<lambda>g. columns_loop cfg imread axes rest (Some g))"

text \<open>Lines 139 to 150: the scale bar on the bottom right axes.\<close>

definition scale_bar_step :: "config \<Rightarrow> axes_grid \<Rightarrow> f64 ndarray option \<Rightarrow> unit io" where
  "scale_bar_step cfg axes raw_green =
     bind_io (axes_at axes 2 (- 1)) (\<lambda>last_ax.
     bind_io (case raw_green of None \<Rightarrow> raise NameError | Some g \<Rightarrow> ret (nrows g, ncols g))
       (\<lambda>shape.
     emit (AddPatch last_ax
       (scale_bar_rect (SCALE_BAR_LENGTH_UM cfg) (PIXELS_PER_MICRON cfg) (fst shape) (snd shape)))))"

text \<open>Lines 152 to 159: the figure label, the export and the final message.\<close>

definition finish :: "unit io" where
  "finish =
     bind_io (emit (FigText ''B'')) (\<lambda>_.
     bind_io (emit (Savefig ''final_figure.png'')) (\<lambda>_.
     bind_io (emit (Print ''Done! Saved as final_figure.png'')) (\<lambda>_.
     emit Show)))"

definition generate_figure :: "config \<Rightarrow> reader \<Rightarrow> unit io" where
  "generate_figure cfg imread =
     (let num_cols = length (COL_LABELS cfg);
          num_rows = 3
      in bind_io (subplots num_rows num_cols) (\<lambda>axes.
         bind_io (emit SubplotsAdjust) (\<lambda>_.
         bind_io (emit (Print ''Generating figure...'')) (\<lambda>_.
         bind_io (columns_loop cfg imread axes [0..<num_cols] None) (\<lambda>raw_green.
         bind_io (if ADD_SCALEBAR cfg then scale_bar_step cfg axes raw_green else ret ()) (\<lambda>_.
         finish))))))"

section \<open>Observations and example inputs\<close>

text \<open>
  A run has failed when it ends in an exception, and it has saved when \<open>plt.savefig\<close>
  has been called, which is the only statement that writes the output file.
\<close>

definition failed :: "'a io \<Rightarrow> bool" where
  "failed m = isl (snd m)"

definition saves :: "'a io \<Rightarrow> bool" where
  "saves m = (\<exists>f. Savefig f \<in> set (fst m))"

text \<open>
  A file system for the examples: one path is missing, one exists but cannot be read, and
  every other path holds a 1 by 2 image with the integer samples 3 and 7.
\<close>

definition example_reader :: reader where
  "example_reader p =
     (if p = ''missing.tif'' then Inl FileNotFoundError
      else if p = ''locked.tif'' then Inl PermissionError
      else Inr (IntPixels \<lparr>nrows = 1, ncols = 2, samples = [3, 7]\<rparr>))"

text \<open>
  Two configurations for the examples: a consistent one with two conditions, and the same
  with the second path of the green row left out.
\<close>

definition example_config :: config where
  "example_config =
     \<lparr>COL_LABELS = [''A'', ''B''],
      ROW_LABELS = [''G'', ''R'', ''M''],
      file_matrix = [ [''a_green.tif'', ''b_green.tif''], [''a_red.tif'', ''b_red.tif''] ],
      ADD_SCALEBAR = True,
      PIXELS_PER_MICRON = 1 / 2,
      SCALE_BAR_LENGTH_UM = 1\<rparr>"

definition short_config :: config where
  "short_config = example_config\<lparr>file_matrix := [ [''a_green.tif''], [''a_red.tif'', ''b_red.tif''] ]\<rparr>"

text \<open>
  The example image after normalisation, and its three panels: green, red and merge of
  the image with itself.
\<close>

definition unit_ramp :: "f64 ndarray" where
  "unit_ramp = \<lparr>nrows = 1, ncols = 2, samples = [Fin 0, Fin 1]\<rparr>"

definition ramp_green :: rgb_array where
  "ramp_green = \<lparr>rgb_h = 1, rgb_w = 2, pixels = [(Fin 0, Fin 0, Fin 0), (Fin 0, Fin 1, Fin 0)]\<rparr>"

definition ramp_red :: rgb_array where
  "ramp_red = \<lparr>rgb_h = 1, rgb_w = 2, pixels = [(Fin 0, Fin 0, Fin 0), (Fin 1, Fin 0, Fin 0)]\<rparr>"

definition ramp_merge :: rgb_array where
  "ramp_merge = \<lparr>rgb_h = 1, rgb_w = 2, pixels = [(Fin 0, Fin 0, Fin 0), (Fin 1, Fin 1, Fin 0)]\<rparr>"


section \<open>Facts about floating-point samples\<close>

lemma f64_overflow_gt_one: "1 < f64_overflow"
proof -
  have "(2::real) ^ 970 * 2 \<le> 2 ^ 970 * 2 ^ 54" by simp
  then have "(2::real) ^ 970 + 2 ^ 970 \<le> 2 ^ 1024" by (simp add: power_add [symmetric])
  moreover have "(1::real) < 2 ^ 970" by simp
  ultimately show ?thesis by (simp add: f64_overflow_def)
qed

lemma f64_overflow_le: "f64_overflow \<le> 2 ^ 1024"
  by (simp add: f64_overflow_def)

lemma ovf_zero: "ovf 0 = Fin 0"
  using f64_overflow_gt_one by (simp add: ovf_def)

lemma ovf_unit: "0 \<le> r \<Longrightarrow> r \<le> 1 \<Longrightarrow> ovf r = Fin r"
  using f64_overflow_gt_one by (simp add: ovf_def)

lemma fmin_Fin: "fmin (Fin a) (Fin b) = Fin (min a b)"
  by (simp add: fmin_def min_def)

lemma fmax_Fin: "fmax (Fin a) (Fin b) = Fin (max a b)"
  by (simp add: fmax_def max_def)

lemma fold_fmin_Fin: "fold fmin (map Fin rs) (Fin r) = Fin (fold min rs r)"
  by (induction rs arbitrary: r) (simp_all add: fmin_Fin)

lemma fold_fmax_Fin: "fold fmax (map Fin rs) (Fin r) = Fin (fold max rs r)"
  by (induction rs arbitrary: r) (simp_all add: fmax_Fin)

lemma amin_Fin: "rs \<noteq> [] \<Longrightarrow> amin (map Fin rs) = Fin (Min (set rs))"
  by (cases rs) (simp_all add: amin_def fold_fmin_Fin Min.set_eq_fold [symmetric])

lemma amax_Fin: "rs \<noteq> [] \<Longrightarrow> amax (map Fin rs) = Fin (Max (set rs))"
  by (cases rs) (simp_all add: amax_def fold_fmax_Fin Max.set_eq_fold [symmetric])

lemma fmin_Fin_result:
  assumes "fmin x s = Fin m"
  shows "(x = PInf \<or> (\<exists>a. x = Fin a \<and> m \<le> a)) \<and> (s = PInf \<or> (\<exists>a. s = Fin a \<and> m \<le> a))"
  using assms by (cases x; cases s) (auto simp: fmin_def split: if_splits)

lemma fmax_Fin_result:
  assumes "fmax x s = Fin m"
  shows "(x = NInf \<or> (\<exists>a. x = Fin a \<and> a \<le> m)) \<and> (s = NInf \<or> (\<exists>a. s = Fin a \<and> a \<le> m))"
  using assms by (cases x; cases s) (auto simp: fmax_def split: if_splits)

lemma fold_fmin_lower:
  "fold fmin xs s = Fin m \<Longrightarrow>
     (s = PInf \<or> (\<exists>a. s = Fin a \<and> m \<le> a))
     \<and> (\<forall>x \<in> set xs. x = PInf \<or> (\<exists>a. x = Fin a \<and> m \<le> a))"
proof (induction xs arbitrary: s)
  case Nil
  then show ?case by simp
next
  case (Cons x xs)
  from Cons.prems have f: "fold fmin xs (fmin x s) = Fin m" by simp
  from Cons.IH [OF f]
  have head: "fmin x s = PInf \<or> (\<exists>a. fmin x s = Fin a \<and> m \<le> a)"
    and rest: "\<forall>y \<in> set xs. y = PInf \<or> (\<exists>a. y = Fin a \<and> m \<le> a)" by blast+
  from head have "(x = PInf \<or> (\<exists>a. x = Fin a \<and> m \<le> a))
      \<and> (s = PInf \<or> (\<exists>a. s = Fin a \<and> m \<le> a))"
  proof
    assume "fmin x s = PInf"
    then show ?thesis by (cases x; cases s) (auto simp: fmin_def split: if_splits)
  next
    assume "\<exists>a. fmin x s = Fin a \<and> m \<le> a"
    then obtain a where a: "fmin x s = Fin a" and ma: "m \<le> a" by blast
    from fmin_Fin_result [OF a] ma show ?thesis by force
  qed
  with rest show ?case by simp
qed

lemma fold_fmax_upper:
  "fold fmax xs s = Fin m \<Longrightarrow>
     (s = NInf \<or> (\<exists>a. s = Fin a \<and> a \<le> m))
     \<and> (\<forall>x \<in> set xs. x = NInf \<or> (\<exists>a. x = Fin a \<and> a \<le> m))"
proof (induction xs arbitrary: s)
  case Nil
  then show ?case by simp
next
  case (Cons x xs)
  from Cons.prems have f: "fold fmax xs (fmax x s) = Fin m" by simp
  from Cons.IH [OF f]
  have head: "fmax x s = NInf \<or> (\<exists>a. fmax x s = Fin a \<and> a \<le> m)"
    and rest: "\<forall>y \<in> set xs. y = NInf \<or> (\<exists>a. y = Fin a \<and> a \<le> m)" by blast+
  from head have "(x = NInf \<or> (\<exists>a. x = Fin a \<and> a \<le> m))
      \<and> (s = NInf \<or> (\<exists>a. s = Fin a \<and> a \<le> m))"
  proof
    assume "fmax x s = NInf"
    then show ?thesis by (cases x; cases s) (auto simp: fmax_def split: if_splits)
  next
    assume "\<exists>a. fmax x s = Fin a \<and> a \<le> m"
    then obtain a where a: "fmax x s = Fin a" and ma: "a \<le> m" by blast
    from fmax_Fin_result [OF a] ma show ?thesis by force
  qed
  with rest show ?case by simp
qed

lemma amin_lower:
  assumes "xs \<noteq> []" and "amin xs = Fin m" and "x \<in> set xs"
  shows "x = PInf \<or> (\<exists>a. x = Fin a \<and> m \<le> a)"
proof -
  obtain y ys where xs: "xs = y # ys" using assms(1) by (cases xs) auto
  from assms(2) have "fold fmin ys y = Fin m" by (simp add: amin_def xs)
  from fold_fmin_lower [OF this] assms(3) show ?thesis by (auto simp: xs)
qed

lemma amax_upper:
  assumes "xs \<noteq> []" and "amax xs = Fin m" and "x \<in> set xs"
  shows "x = NInf \<or> (\<exists>a. x = Fin a \<and> a \<le> m)"
proof -
  obtain y ys where xs: "xs = y # ys" using assms(1) by (cases xs) auto
  from assms(2) have "fold fmax ys y = Fin m" by (simp add: amax_def xs)
  from fold_fmax_upper [OF this] assms(3) show ?thesis by (auto simp: xs)
qed

section \<open>Facts about the reductions over real numbers\<close>

lemma Min_shift:
  fixes xs :: "real list"
  assumes "xs \<noteq> []"
  shows "Min (set (map (\<lambda>x. x - c) xs)) = Min (set xs) - c"
proof -
  have "mono (\<lambda>x::real. x - c)" by (simp add: mono_def)
  then have "(\<lambda>x. x - c) (Min (set xs)) = Min ((\<lambda>x. x - c) ` set xs)"
    using assms by (intro mono_Min_commute) simp_all
  then show ?thesis by simp
qed

lemma Max_shift:
  fixes xs :: "real list"
  assumes "xs \<noteq> []"
  shows "Max (set (map (\<lambda>x. x - c) xs)) = Max (set xs) - c"
proof -
  have "mono (\<lambda>x::real. x - c)" by (simp add: mono_def)
  then have "(\<lambda>x. x - c) (Max (set xs)) = Max ((\<lambda>x. x - c) ` set xs)"
    using assms by (intro mono_Max_commute) simp_all
  then show ?thesis by simp
qed

lemma Min_scale:
  fixes xs :: "real list"
  assumes "xs \<noteq> []" and "0 < d"
  shows "Min (set (map (\<lambda>x. x / d) xs)) = Min (set xs) / d"
proof -
  have "mono (\<lambda>x::real. x / d)" using assms(2) by (simp add: mono_def divide_right_mono)
  then have "(\<lambda>x. x / d) (Min (set xs)) = Min ((\<lambda>x. x / d) ` set xs)"
    using assms(1) by (intro mono_Min_commute) simp_all
  then show ?thesis by simp
qed

lemma Max_scale:
  fixes xs :: "real list"
  assumes "xs \<noteq> []" and "0 < d"
  shows "Max (set (map (\<lambda>x. x / d) xs)) = Max (set xs) / d"
proof -
  have "mono (\<lambda>x::real. x / d)" using assms(2) by (simp add: mono_def divide_right_mono)
  then have "(\<lambda>x. x / d) (Max (set xs)) = Max ((\<lambda>x. x / d) ` set xs)"
    using assms(1) by (intro mono_Max_commute) simp_all
  then show ?thesis by simp
qed

lemma Min_less_Max:
  fixes xs :: "real list"
  assumes "x \<in> set xs" and "y \<in> set xs" and "x \<noteq> y"
  shows "Min (set xs) < Max (set xs)"
proof -
  have "Min (set xs) \<le> min x y" using assms by simp
  moreover have "max x y \<le> Max (set xs)" using assms by simp
  moreover have "min x y < max x y" using assms(3) by (simp add: min_def max_def)
  ultimately show ?thesis by linarith
qed

lemma normalize_steps_divisor_pos:
  "normalize_steps img = Inr (Some d, r) \<Longrightarrow> flt (Fin 0) d"
  by (auto simp: normalize_steps_def Let_def split: if_splits)


section \<open>Normalisation: range, constant images, idempotence\<close>

lemma normalize_steps_finite:
  assumes fin: "samples img = map Fin rs"
    and x: "x \<in> set rs" and y: "y \<in> set rs" and xy: "x \<noteq> y"
    and range: "Max (set rs) - Min (set rs) < f64_overflow"
  shows "normalize_steps img =
           Inr (Some (Fin (Max (set rs) - Min (set rs))),
                img\<lparr>samples := map Fin
                  (map (\<lambda>v. v / (Max (set rs) - Min (set rs)))
                     (map (\<lambda>v. v - Min (set rs)) rs))\<rparr>)"
proof -
  let ?m = "Min (set rs)"
  let ?M = "Max (set rs)"
  let ?ys = "map (\<lambda>v. v - ?m) rs"
  let ?h = "?M - ?m"
  have ne: "rs \<noteq> []" using x by auto
  have ne': "samples img \<noteq> []" using ne fin by simp
  have pos: "0 < ?h" using Min_less_Max [OF x y xy] by simp
  have lo: "amin (samples img) = Fin ?m" using amin_Fin [OF ne] fin by simp
  have sub: "map (\<lambda>s. fsub s (Fin ?m)) (map Fin rs) = map Fin ?ys"
  proof -
    have "\<forall>v \<in> set rs. fsub (Fin v) (Fin ?m) = Fin (v - ?m)"
    proof
      fix v assume v: "v \<in> set rs"
      then have "?m \<le> v" and "v \<le> ?M" by simp_all
      then have "0 \<le> v - ?m" and "v - ?m < f64_overflow" using range by linarith+
      then show "fsub (Fin v) (Fin ?m) = Fin (v - ?m)"
        using f64_overflow_gt_one by (simp add: ovf_def)
    qed
    then show ?thesis by simp
  qed
  have ney: "?ys \<noteq> []" using ne by simp
  have hi: "amax (map Fin ?ys) = Fin ?h"
    using amax_Fin [OF ney] Max_shift [OF ne, of ?m] by simp
  have dv: "map (\<lambda>s. fdiv s (Fin ?h)) (map Fin ?ys) = map Fin (map (\<lambda>v. v / ?h) ?ys)"
  proof -
    have "\<forall>v \<in> set ?ys. fdiv (Fin v) (Fin ?h) = Fin (v / ?h)"
    proof
      fix v assume "v \<in> set ?ys"
      then obtain u where u: "u \<in> set rs" and v: "v = u - ?m" by auto
      from u have "?m \<le> u" and "u \<le> ?M" by simp_all
      then have "0 \<le> v" and "v \<le> ?h" using v by linarith+
      then have "0 \<le> v / ?h" and "v / ?h \<le> 1" using pos by simp_all
      then show "fdiv (Fin v) (Fin ?h) = Fin (v / ?h)"
        using pos by (simp add: ovf_unit)
    qed
    then show ?thesis by simp
  qed
  have lo': "amin (map Fin rs) = Fin ?m" using amin_Fin [OF ne] .
  have s1: "map (\<lambda>x. fsub x (amin (samples img))) (samples img) = map Fin ?ys"
    by (simp only: fin lo' sub)
  have sel: "samples (img\<lparr>samples := map Fin ?ys\<rparr>) = map Fin ?ys" by simp
  have upd: "img\<lparr>samples := map Fin ?ys\<rparr>\<lparr>samples := map Fin (map (\<lambda>v. v / ?h) ?ys)\<rparr>
      = img\<lparr>samples := map Fin (map (\<lambda>v. v / ?h) ?ys)\<rparr>" by simp
  have guard: "flt (Fin 0) (Fin ?h)" using pos by simp
  show ?thesis
    unfolding normalize_steps_def Let_def s1 sel hi dv upd
    using ne' guard by (simp only: if_False if_True)
qed

lemma normalize_overflow_pair:
  assumes "0 < b" and "f64_overflow \<le> 2 * b"
  shows "normalize \<lparr>nrows = 1, ncols = 2, samples = [Fin (- b), Fin b]\<rparr>
           = Inr \<lparr>nrows = 1, ncols = 2, samples = [Fin 0, NaN]\<rparr>"
proof -
  have lo: "amin [Fin (- b), Fin b] = Fin (- b)"
    using assms(1) by (simp add: amin_def fmin_Fin)
  have big: "ovf (2 * b) = PInf" using assms(2) by (simp add: ovf_def)
  have s1: "map (\<lambda>x. fsub x (Fin (- b))) [Fin (- b), Fin b] = [Fin 0, PInf]"
    by (simp add: ovf_zero big)
  have hi: "amax [Fin 0, PInf] = PInf" by (simp add: amax_def fmax_def)
  have dv: "map (\<lambda>x. fdiv x PInf) [Fin 0, PInf] = [Fin 0, NaN]" by simp
  have "normalize_steps \<lparr>nrows = 1, ncols = 2, samples = [Fin (- b), Fin b]\<rparr>
      = Inr (Some PInf, \<lparr>nrows = 1, ncols = 2, samples = [Fin 0, NaN]\<rparr>)"
    unfolding normalize_steps_def Let_def
    by (simp add: lo ovf_zero big hi)
  then show ?thesis by (simp add: normalize_def)
qed

text \<open>
  Claim C1, as the code has it. For every image with finite samples that are not all
  equal and whose range (largest minus smallest sample) stays below the floating-point
  overflow threshold, the normalisation step succeeds and returns an image of the same
  shape whose minimum, as \<open>min()\<close> reports it, is 0 and whose maximum is 1.
\<close>

theorem normalize_min0_max1:
  assumes "samples img = map Fin rs"
    and "x \<in> set rs" and "y \<in> set rs" and "x \<noteq> y"
    and "Max (set rs) - Min (set rs) < f64_overflow"
  shows "\<exists>r. normalize img = Inr r \<and> nrows r = nrows img \<and> ncols r = ncols img
           \<and> length (samples r) = length (samples img)
           \<and> amin (samples r) = Fin 0 \<and> amax (samples r) = Fin 1"
proof -
  let ?m = "Min (set rs)"
  let ?M = "Max (set rs)"
  let ?ys = "map (\<lambda>v. v - ?m) rs"
  let ?h = "?M - ?m"
  let ?zs = "map (\<lambda>v. v / ?h) ?ys"
  have ne: "rs \<noteq> []" using assms(2) by auto
  have ney: "?ys \<noteq> []" using ne by simp
  have nez: "?zs \<noteq> []" using ne by simp
  have pos: "0 < ?h" using Min_less_Max [OF assms(2,3,4)] by simp
  have miny: "Min (set ?ys) = 0" using Min_shift [OF ne, of ?m] by simp
  have maxy: "Max (set ?ys) = ?h" using Max_shift [OF ne, of ?m] by simp
  have minz: "Min (set ?zs) = 0" using Min_scale [OF ney pos] miny by simp
  have maxz: "Max (set ?zs) = 1" using Max_scale [OF ney pos] maxy pos by simp
  have lo: "amin (map Fin ?zs) = Fin 0" using amin_Fin [OF nez] minz by simp
  have hi: "amax (map Fin ?zs) = Fin 1" using amax_Fin [OF nez] maxz by simp
  have "normalize img = Inr (img\<lparr>samples := map Fin ?zs\<rparr>)"
    using normalize_steps_finite [OF assms] by (simp add: normalize_def)
  then show ?thesis using lo hi assms(1) by simp
qed

theorem normalize_min0_max1_witness:
  "samples \<lparr>nrows = 1, ncols = 2, samples = [Fin 3, Fin 7]\<rparr> = map Fin [3, 7]
   \<and> (3::real) \<noteq> 7
   \<and> Max (set [3, 7::real]) - Min (set [3, 7]) < f64_overflow
   \<and> (\<exists>r. normalize \<lparr>nrows = 1, ncols = 2, samples = [Fin 3, Fin 7]\<rparr> = Inr r
         \<and> nrows r = 1 \<and> ncols r = 2
         \<and> amin (samples r) = Fin 0 \<and> amax (samples r) = Fin 1)"
proof -
  let ?img = "\<lparr>nrows = 1, ncols = 2, samples = [Fin 3, Fin 7]\<rparr>"
  have h1: "samples ?img = map Fin [3, 7]" by simp
  have h2: "(3::real) \<in> set [3, 7]" by simp
  have h3: "(7::real) \<in> set [3, 7]" by simp
  have h4: "(3::real) \<noteq> 7" by simp
  have h5: "Max (set [3, 7::real]) - Min (set [3, 7]) < f64_overflow"
    using f64_overflow_gt_one by (simp add: f64_overflow_def)
  from normalize_min0_max1 [OF h1 h2 h3 h4 h5]
  obtain r where "normalize ?img = Inr r \<and> nrows r = 1 \<and> ncols r = 2
      \<and> amin (samples r) = Fin 0 \<and> amax (samples r) = Fin 1" by auto
  then show ?thesis using h1 h4 h5 by blast
qed

text \<open>
  Claim C1 as stated fails once the subtraction overflows: the image with the two finite
  samples \<open>-2^1023\<close> and \<open>2^1023\<close> is not constant, the subtraction of the minimum
  gives 0 and infinity, and the division turns the infinity into NaN, so neither the
  minimum nor the maximum of the result is a number.
\<close>

theorem normalize_overflow_counterexample:
  "normalize \<lparr>nrows = 1, ncols = 2, samples = [Fin (- (2 ^ 1023)), Fin (2 ^ 1023)]\<rparr>
     = Inr \<lparr>nrows = 1, ncols = 2, samples = [Fin 0, NaN]\<rparr>
   \<and> amin [Fin 0, NaN] = NaN \<and> amax [Fin 0, NaN] = NaN
   \<and> amax [Fin 0, NaN] \<noteq> Fin 1"
proof -
  have c1: "(0::real) < 2 ^ 1023" by simp
  have "(2::real) * 2 ^ 1023 = 2 ^ 1024" by simp
  then have c2: "f64_overflow \<le> 2 * 2 ^ 1023" using f64_overflow_le by simp
  have a: "normalize \<lparr>nrows = 1, ncols = 2, samples = [Fin (- (2 ^ 1023)), Fin (2 ^ 1023)]\<rparr>
      = Inr \<lparr>nrows = 1, ncols = 2, samples = [Fin 0, NaN]\<rparr>"
    by (rule normalize_overflow_pair [OF c1 c2])
  have b: "amin [Fin 0, NaN] = NaN" by (simp add: amin_def fmin_def)
  have c: "amax [Fin 0, NaN] = NaN" by (simp add: amax_def fmax_def)
  have d: "amax [Fin 0, NaN] \<noteq> Fin 1" using c by simp
  from a b c d show ?thesis by blast
qed

text \<open>
  Claim C2. For every constant image (it has samples, and all of them equal the finite
  number \<open>c\<close>), the normalisation step returns the image of the same shape with every
  sample 0, and the division statement does not run: the divisor component is \<open>None\<close>.
  On any image at all, when the division statement does run its divisor is strictly
  positive.
\<close>

theorem normalize_constant:
  assumes "samples img \<noteq> []" and "\<forall>x \<in> set (samples img). x = Fin c"
  shows "normalize_steps img
           = Inr (None, img\<lparr>samples := replicate (length (samples img)) (Fin 0)\<rparr>)
         \<and> normalize img = Inr (img\<lparr>samples := replicate (length (samples img)) (Fin 0)\<rparr>)
         \<and> (\<forall>img' d r. normalize_steps img' = Inr (Some d, r) \<longrightarrow> flt (Fin 0) d)"
proof -
  let ?xs = "samples img"
  let ?n = "length ?xs"
  have n: "0 < ?n" using assms(1) by simp
  have rep: "?xs = map Fin (replicate ?n c)"
    using assms(2) by (simp add: replicate_length_same)
  have rne: "replicate ?n c \<noteq> []" using n by simp
  have "amin (map Fin (replicate ?n c)) = Fin c"
    using amin_Fin [OF rne] n by simp
  then have lo: "amin ?xs = Fin c" using rep by simp
  have "\<forall>x \<in> set ?xs. fsub x (Fin c) = Fin 0"
  proof
    fix x assume "x \<in> set ?xs"
    then have "x = Fin c" using assms(2) by blast
    then show "fsub x (Fin c) = Fin 0" by (simp add: ovf_zero)
  qed
  then have ys: "map (\<lambda>x. fsub x (Fin c)) ?xs = replicate ?n (Fin 0)"
    by (simp add: map_replicate_const [symmetric])
  have zne: "replicate ?n (0::real) \<noteq> []" using n by simp
  have "amax (map Fin (replicate ?n 0)) = Fin 0"
    using amax_Fin [OF zne] n by simp
  then have hi: "amax (replicate ?n (Fin 0)) = Fin 0" by simp
  have steps: "normalize_steps img = Inr (None, img\<lparr>samples := replicate ?n (Fin 0)\<rparr>)"
    unfolding normalize_steps_def Let_def lo
    using assms(1) by (simp add: ys hi)
  then have "normalize img = Inr (img\<lparr>samples := replicate ?n (Fin 0)\<rparr>)"
    by (simp add: normalize_def)
  with steps show ?thesis using normalize_steps_divisor_pos by blast
qed

theorem normalize_constant_witness:
  "samples \<lparr>nrows = 2, ncols = 2, samples = [Fin 10, Fin 10, Fin 10, Fin 10]\<rparr> \<noteq> []
   \<and> set (samples \<lparr>nrows = 2, ncols = 2, samples = [Fin 10, Fin 10, Fin 10, Fin 10]\<rparr>)
       = {Fin 10}
   \<and> normalize_steps \<lparr>nrows = 2, ncols = 2, samples = [Fin 10, Fin 10, Fin 10, Fin 10]\<rparr>
       = Inr (None, \<lparr>nrows = 2, ncols = 2, samples = [Fin 0, Fin 0, Fin 0, Fin 0]\<rparr>)
   \<and> normalize \<lparr>nrows = 2, ncols = 2, samples = [Fin 10, Fin 10, Fin 10, Fin 10]\<rparr>
       = Inr \<lparr>nrows = 2, ncols = 2, samples = [Fin 0, Fin 0, Fin 0, Fin 0]\<rparr>
   \<and> normalize_steps \<lparr>nrows = 1, ncols = 2, samples = [Fin 3, Fin 7]\<rparr>
       = Inr (Some (Fin 4), \<lparr>nrows = 1, ncols = 2, samples = [Fin 0, Fin 1]\<rparr>)
   \<and> flt (Fin 0) (Fin 4)"
proof -
  let ?img = "\<lparr>nrows = 2, ncols = 2, samples = [Fin 10, Fin 10, Fin 10, Fin 10]\<rparr>"
  let ?two = "\<lparr>nrows = 1, ncols = 2, samples = [Fin 3, Fin 7]\<rparr>"
  have h1: "samples ?img \<noteq> []" by simp
  have h2: "\<forall>x \<in> set (samples ?img). x = Fin 10" by simp
  have h2': "set (samples ?img) = {Fin 10}" by simp
  have f1: "ovf 4 = Fin 4" using f64_overflow_gt_one by (simp add: f64_overflow_def ovf_def)
  have run: "normalize_steps ?two
      = Inr (Some (Fin 4), \<lparr>nrows = 1, ncols = 2, samples = [Fin 0, Fin 1]\<rparr>)"
    by (simp add: normalize_steps_def Let_def amin_def amax_def fmin_Fin fmax_Fin
        ovf_zero f1 ovf_unit)
  note inst = normalize_constant [OF h1 h2]
  from inst have a: "normalize_steps ?img
      = Inr (None, ?img\<lparr>samples := replicate (length (samples ?img)) (Fin 0)\<rparr>)" by blast
  from inst have b: "normalize ?img
      = Inr (?img\<lparr>samples := replicate (length (samples ?img)) (Fin 0)\<rparr>)" by blast
  from inst run have c: "flt (Fin 0) (Fin 4)" by blast
  have rep: "replicate (length (samples ?img)) (Fin 0) = [Fin 0, Fin 0, Fin 0, Fin 0]"
    by (simp add: numeral_eq_Suc)
  show ?thesis using h1 h2' a b c run rep by simp
qed

text \<open>
  Claim C9. The normalisation step is a function of its input, and it leaves unchanged
  every image that has samples, minimum 0 and maximum 1: subtracting 0 and dividing by 1
  change no sample, in floating point as over the reals.
\<close>

theorem normalize_idempotent:
  assumes "samples img \<noteq> []"
    and "amin (samples img) = Fin 0" and "amax (samples img) = Fin 1"
  shows "normalize img = Inr img"
proof -
  let ?xs = "samples img"
  have unit: "\<forall>x \<in> set ?xs. \<exists>a. x = Fin a \<and> 0 \<le> a \<and> a \<le> 1"
  proof
    fix x assume x: "x \<in> set ?xs"
    from amin_lower [OF assms(1) assms(2) x] amax_upper [OF assms(1) assms(3) x]
    show "\<exists>a. x = Fin a \<and> 0 \<le> a \<and> a \<le> 1" by auto
  qed
  have "\<forall>x \<in> set ?xs. fsub x (Fin 0) = x"
    using unit by (auto simp: ovf_unit)
  then have sub: "map (\<lambda>x. fsub x (Fin 0)) ?xs = ?xs" by (simp add: map_idI)
  have "\<forall>x \<in> set ?xs. fdiv x (Fin 1) = x"
    using unit by (auto simp: ovf_unit)
  then have dv: "map (\<lambda>x. fdiv x (Fin 1)) ?xs = ?xs" by (simp add: map_idI)
  show ?thesis
    unfolding normalize_def normalize_steps_def Let_def assms(2)
    using assms(1) by (simp add: sub assms(3) dv)
qed

theorem normalize_idempotent_witness:
  "samples \<lparr>nrows = 1, ncols = 3, samples = [Fin 0, Fin (1 / 2), Fin 1]\<rparr> \<noteq> []
   \<and> amin (samples \<lparr>nrows = 1, ncols = 3, samples = [Fin 0, Fin (1 / 2), Fin 1]\<rparr>) = Fin 0
   \<and> amax (samples \<lparr>nrows = 1, ncols = 3, samples = [Fin 0, Fin (1 / 2), Fin 1]\<rparr>) = Fin 1
   \<and> normalize \<lparr>nrows = 1, ncols = 3, samples = [Fin 0, Fin (1 / 2), Fin 1]\<rparr>
       = Inr \<lparr>nrows = 1, ncols = 3, samples = [Fin 0, Fin (1 / 2), Fin 1]\<rparr>"
proof -
  let ?img = "\<lparr>nrows = 1, ncols = 3, samples = [Fin 0, Fin (1 / 2), Fin 1]\<rparr>"
  have h1: "samples ?img \<noteq> []" by simp
  have h2: "amin (samples ?img) = Fin 0" by (simp add: amin_def fmin_Fin)
  have h3: "amax (samples ?img) = Fin 1" by (simp add: amax_def fmax_Fin)
  show ?thesis using h1 h2 h3 normalize_idempotent [OF h1 h2 h3] by simp
qed


section \<open>Facts about channel assignment and clipping\<close>

lemma map2_replicate_right:
  "length xs = n \<Longrightarrow> map2 f xs (replicate n p) = map (\<lambda>v. f v p) xs"
  by (induction xs arbitrary: n) auto

lemma broadcast_to_same_shape:
  "nrows a = h \<Longrightarrow> ncols a = w \<Longrightarrow> broadcast_to h w a = Some (samples a)"
  by (simp add: broadcast_to_def)

lemma assign_channel_zeros3:
  assumes "wf_array a"
  shows "assign_channel c a (zeros3 (nrows a) (ncols a))
           = Inr \<lparr>rgb_h = nrows a, rgb_w = ncols a,
                  pixels = map (\<lambda>v. px_set c v (Fin 0, Fin 0, Fin 0)) (samples a)\<rparr>"
  using assms
  by (simp add: assign_channel_def zeros3_def broadcast_to_same_shape wf_array_def
      map2_replicate_right)

lemma clip_cases:
  "clip (Fin 0) (Fin 1) (Fin a) = Fin (min (max a 0) 1)"
  "clip (Fin 0) (Fin 1) PInf = Fin 1"
  "clip (Fin 0) (Fin 1) NInf = Fin 0"
  "clip (Fin 0) (Fin 1) NaN = NaN"
  by (simp_all add: clip_def fmin_def fmax_def min_def max_def)


lemma clip_zero: "clip (Fin 0) (Fin 1) (Fin 0) = Fin 0"
  by (simp add: clip_cases)

lemma create_merge_same_shape:
  assumes "wf_array a" and "nrows b = nrows a" and "ncols b = ncols a"
  shows "create_merge a b
           = Inr \<lparr>rgb_h = nrows a, rgb_w = ncols a,
                  pixels = map2 (\<lambda>rv gv. (clip (Fin 0) (Fin 1) rv, clip (Fin 0) (Fin 1) gv, Fin 0))
                             (samples b) (samples a)\<rparr>"
proof -
  let ?m1 = "\<lparr>rgb_h = nrows a, rgb_w = ncols a,
               pixels = map (\<lambda>v. (Fin 0, v, Fin 0)) (samples a)\<rparr>"
  have one: "assign_channel 1 a (zeros3 (nrows a) (ncols a)) = Inr ?m1"
    using assign_channel_zeros3 [OF assms(1)] by simp
  have px: "map2 (px_set 0) (samples b) (map (\<lambda>v. (Fin 0, v, Fin 0)) (samples a))
              = map2 (\<lambda>rv gv. (rv, gv, Fin 0)) (samples b) (samples a)"
    by (auto simp: zip_map2)
  have two: "assign_channel 0 b ?m1
               = Inr \<lparr>rgb_h = nrows a, rgb_w = ncols a,
                      pixels = map2 (\<lambda>rv gv. (rv, gv, Fin 0)) (samples b) (samples a)\<rparr>"
    using assms(2,3) px by (simp add: assign_channel_def broadcast_to_same_shape)
  show ?thesis
    unfolding create_merge_def Let_def one
    by (auto simp: two clip_pixel_def clip_zero)
qed

lemma channels_of_merge:
  assumes "length rs = length gs"
  shows "channel 0 \<lparr>rgb_h = h, rgb_w = w,
            pixels = map2 (\<lambda>rv gv. (clip (Fin 0) (Fin 1) rv, clip (Fin 0) (Fin 1) gv, Fin 0)) rs gs\<rparr>
           = map (clip (Fin 0) (Fin 1)) rs"
    and "channel 1 \<lparr>rgb_h = h, rgb_w = w,
            pixels = map2 (\<lambda>rv gv. (clip (Fin 0) (Fin 1) rv, clip (Fin 0) (Fin 1) gv, Fin 0)) rs gs\<rparr>
           = map (clip (Fin 0) (Fin 1)) gs"
    and "channel 2 \<lparr>rgb_h = h, rgb_w = w,
            pixels = map2 (\<lambda>rv gv. (clip (Fin 0) (Fin 1) rv, clip (Fin 0) (Fin 1) gv, Fin 0)) rs gs\<rparr>
           = replicate (length gs) (Fin 0)"
  using assms by (induction rs gs rule: list_induct2) (simp_all add: channel_def numeral_2_eq_2)


section \<open>colorize\<close>

text \<open>
  Claim C4. For every well-formed two-dimensional image and each of the colours green and
  red, colorize returns a three-channel array of the image's height and width in which the
  requested channel (index 1 for green, index 0 for red) holds exactly the input samples
  and the two other channels are 0 at every pixel.
\<close>

theorem colorize_channels:
  assumes "wf_array img"
  shows "(\<exists>rgb. colorize img ''green'' = Inr rgb
            \<and> rgb_h rgb = nrows img \<and> rgb_w rgb = ncols img \<and> wf_rgb rgb
            \<and> channel 1 rgb = samples img
            \<and> channel 0 rgb = replicate (nrows img * ncols img) (Fin 0)
            \<and> channel 2 rgb = replicate (nrows img * ncols img) (Fin 0))
       \<and> (\<exists>rgb. colorize img ''red'' = Inr rgb
            \<and> rgb_h rgb = nrows img \<and> rgb_w rgb = ncols img \<and> wf_rgb rgb
            \<and> channel 0 rgb = samples img
            \<and> channel 1 rgb = replicate (nrows img * ncols img) (Fin 0)
            \<and> channel 2 rgb = replicate (nrows img * ncols img) (Fin 0))"
proof -
  have len: "length (samples img) = nrows img * ncols img"
    using assms by (simp add: wf_array_def)
  have zero: "map (\<lambda>v. Fin 0) (samples img) = replicate (nrows img * ncols img) (Fin 0)"
    using len by (simp add: map_replicate_const)
  have green: "colorize img ''green''
      = Inr \<lparr>rgb_h = nrows img, rgb_w = ncols img,
             pixels = map (\<lambda>v. (Fin 0, v, Fin 0)) (samples img)\<rparr>"
    using assign_channel_zeros3 [OF assms, of 1] by (simp add: colorize_def Let_def)
  have red: "colorize img ''red''
      = Inr \<lparr>rgb_h = nrows img, rgb_w = ncols img,
             pixels = map (\<lambda>v. (v, Fin 0, Fin 0)) (samples img)\<rparr>"
    using assign_channel_zeros3 [OF assms, of 0] by (simp add: colorize_def Let_def)
  show ?thesis
    unfolding green red
    using len zero by (simp add: channel_def wf_rgb_def comp_def numeral_2_eq_2)
qed

theorem colorize_channels_witness:
  "wf_array \<lparr>nrows = 1, ncols = 2, samples = [Fin (1 / 2), Fin 1]\<rparr>
   \<and> (\<exists>rgb. colorize \<lparr>nrows = 1, ncols = 2, samples = [Fin (1 / 2), Fin 1]\<rparr> ''green'' = Inr rgb
         \<and> channel 1 rgb = [Fin (1 / 2), Fin 1]
         \<and> channel 0 rgb = [Fin 0, Fin 0] \<and> channel 2 rgb = [Fin 0, Fin 0])
   \<and> (\<exists>rgb. colorize \<lparr>nrows = 1, ncols = 2, samples = [Fin (1 / 2), Fin 1]\<rparr> ''red'' = Inr rgb
         \<and> channel 0 rgb = [Fin (1 / 2), Fin 1]
         \<and> channel 1 rgb = [Fin 0, Fin 0] \<and> channel 2 rgb = [Fin 0, Fin 0])"
proof -
  let ?img = "\<lparr>nrows = 1, ncols = 2, samples = [Fin (1 / 2), Fin 1]\<rparr>"
  have h: "wf_array ?img" by (simp add: wf_array_def)
  have rep: "replicate (nrows ?img * ncols ?img) (Fin 0) = [Fin 0, Fin 0]"
    by (simp add: numeral_2_eq_2)
  have s: "samples ?img = [Fin (1 / 2), Fin 1]" by simp
  show ?thesis using h colorize_channels [OF h] unfolding rep s by blast
qed

text \<open>
  Claim C10. For every two-dimensional image and every colour other than green and red,
  colorize raises nothing and returns the three-channel array of the image's height and
  width with every sample 0.
\<close>

theorem colorize_other_color:
  assumes "color \<noteq> ''green''" and "color \<noteq> ''red''"
  shows "\<exists>rgb. colorize img color = Inr rgb
           \<and> rgb_h rgb = nrows img \<and> rgb_w rgb = ncols img
           \<and> pixels rgb = replicate (nrows img * ncols img) (Fin 0, Fin 0, Fin 0)"
  using assms by (simp add: colorize_def Let_def zeros3_def)

theorem colorize_other_color_witness:
  "''blue'' \<noteq> ''green'' \<and> ''blue'' \<noteq> ''red''
   \<and> (\<exists>rgb. colorize \<lparr>nrows = 1, ncols = 2, samples = [Fin (1 / 2), Fin 1]\<rparr> ''blue'' = Inr rgb
         \<and> rgb_h rgb = 1 \<and> rgb_w rgb = 2
         \<and> pixels rgb = [(Fin 0, Fin 0, Fin 0), (Fin 0, Fin 0, Fin 0)])"
proof -
  let ?img = "\<lparr>nrows = 1, ncols = 2, samples = [Fin (1 / 2), Fin 1]\<rparr>"
  have h1: "''blue'' \<noteq> ''green''" by simp
  have h2: "''blue'' \<noteq> ''red''" by simp
  have rep: "replicate (1 * 2) (Fin 0, Fin 0, Fin 0)
      = [(Fin 0, Fin 0, Fin 0), (Fin 0, Fin 0, Fin 0)]"
    by (simp add: numeral_2_eq_2)
  have sh: "nrows ?img = 1" "ncols ?img = 2" by simp_all
  show ?thesis
    using h1 h2 colorize_other_color [OF h1 h2, of ?img] unfolding sh rep by blast
qed

section \<open>create_merge\<close>

text \<open>
  Claim C5. For well-formed images \<open>a\<close> and \<open>b\<close> of one shape, both merges succeed;
  \<open>create_merge b a\<close> is \<open>create_merge a b\<close> with the red and green planes
  exchanged: the first argument always fills the green plane and the second the red
  plane, each clipped to the unit interval, and the blue plane is 0 in both.
\<close>

theorem create_merge_swap:
  assumes "wf_array a" and "wf_array b" and "nrows b = nrows a" and "ncols b = ncols a"
  shows "\<exists>m1 m2. create_merge a b = Inr m1 \<and> create_merge b a = Inr m2
           \<and> rgb_h m1 = nrows a \<and> rgb_w m1 = ncols a
           \<and> rgb_h m2 = nrows a \<and> rgb_w m2 = ncols a
           \<and> channel 0 m2 = channel 1 m1 \<and> channel 1 m2 = channel 0 m1
           \<and> channel 1 m1 = map (clip (Fin 0) (Fin 1)) (samples a)
           \<and> channel 0 m1 = map (clip (Fin 0) (Fin 1)) (samples b)
           \<and> channel 2 m1 = replicate (nrows a * ncols a) (Fin 0)
           \<and> channel 2 m2 = replicate (nrows a * ncols a) (Fin 0)"
proof -
  have la: "length (samples a) = nrows a * ncols a"
    using assms(1) by (simp add: wf_array_def)
  have lb: "length (samples b) = nrows a * ncols a"
    using assms(2,3,4) by (simp add: wf_array_def)
  have ab: "length (samples b) = length (samples a)" using la lb by simp
  have ba: "length (samples a) = length (samples b)" using la lb by simp
  let ?f = "\<lambda>rv gv. (clip (Fin 0) (Fin 1) rv, clip (Fin 0) (Fin 1) gv, Fin 0)"
  let ?m1 = "\<lparr>rgb_h = nrows a, rgb_w = ncols a, pixels = map2 ?f (samples b) (samples a)\<rparr>"
  let ?m2 = "\<lparr>rgb_h = nrows b, rgb_w = ncols b, pixels = map2 ?f (samples a) (samples b)\<rparr>"
  have m1: "create_merge a b = Inr ?m1"
    by (rule create_merge_same_shape [OF assms(1) assms(3) assms(4)])
  have m2: "create_merge b a = Inr ?m2"
    by (rule create_merge_same_shape [OF assms(2) assms(3) [symmetric] assms(4) [symmetric] ])
  have s1: "rgb_h ?m1 = nrows a" "rgb_w ?m1 = ncols a" by simp_all
  have s2: "rgb_h ?m2 = nrows a" "rgb_w ?m2 = ncols a" using assms(3,4) by simp_all
  have g1: "channel 1 ?m1 = map (clip (Fin 0) (Fin 1)) (samples a)"
    by (rule channels_of_merge(2) [OF ab])
  have r1: "channel 0 ?m1 = map (clip (Fin 0) (Fin 1)) (samples b)"
    by (rule channels_of_merge(1) [OF ab])
  have b1: "channel 2 ?m1 = replicate (nrows a * ncols a) (Fin 0)"
    using channels_of_merge(3) [OF ab, of "nrows a" "ncols a"] la by simp
  have g2: "channel 1 ?m2 = map (clip (Fin 0) (Fin 1)) (samples b)"
    by (rule channels_of_merge(2) [OF ba])
  have r2: "channel 0 ?m2 = map (clip (Fin 0) (Fin 1)) (samples a)"
    by (rule channels_of_merge(1) [OF ba])
  have b2: "channel 2 ?m2 = replicate (nrows a * ncols a) (Fin 0)"
    using channels_of_merge(3) [OF ba, of "nrows b" "ncols b"] lb by simp
  have x1: "channel 0 ?m2 = channel 1 ?m1" using r2 g1 by simp
  have x2: "channel 1 ?m2 = channel 0 ?m1" using g2 r1 by simp
  from m1 m2 s1 s2 x1 x2 g1 r1 b1 b2 show ?thesis by blast
qed

theorem create_merge_swap_witness:
  "wf_array \<lparr>nrows = 1, ncols = 2, samples = [Fin (1 / 4), Fin 1]\<rparr>
   \<and> wf_array \<lparr>nrows = 1, ncols = 2, samples = [Fin (1 / 2), Fin 0]\<rparr>
   \<and> (\<exists>m1 m2.
         create_merge \<lparr>nrows = 1, ncols = 2, samples = [Fin (1 / 4), Fin 1]\<rparr>
                      \<lparr>nrows = 1, ncols = 2, samples = [Fin (1 / 2), Fin 0]\<rparr> = Inr m1
       \<and> create_merge \<lparr>nrows = 1, ncols = 2, samples = [Fin (1 / 2), Fin 0]\<rparr>
                      \<lparr>nrows = 1, ncols = 2, samples = [Fin (1 / 4), Fin 1]\<rparr> = Inr m2
       \<and> channel 0 m2 = channel 1 m1 \<and> channel 1 m2 = channel 0 m1
       \<and> channel 1 m1 = [Fin (1 / 4), Fin 1] \<and> channel 0 m1 = [Fin (1 / 2), Fin 0]
       \<and> channel 2 m1 = [Fin 0, Fin 0] \<and> channel 2 m2 = [Fin 0, Fin 0])"
proof -
  let ?a = "\<lparr>nrows = 1, ncols = 2, samples = [Fin (1 / 4), Fin 1]\<rparr>"
  let ?b = "\<lparr>nrows = 1, ncols = 2, samples = [Fin (1 / 2), Fin 0]\<rparr>"
  have h1: "wf_array ?a" by (simp add: wf_array_def)
  have h2: "wf_array ?b" by (simp add: wf_array_def)
  have h3: "nrows ?b = nrows ?a" by simp
  have h4: "ncols ?b = ncols ?a" by simp
  have rep: "replicate (nrows ?a * ncols ?a) (Fin 0) = [Fin 0, Fin 0]"
    by (simp add: numeral_2_eq_2)
  have ca: "map (clip (Fin 0) (Fin 1)) (samples ?a) = [Fin (1 / 4), Fin 1]"
    by (simp add: clip_cases)
  have cb: "map (clip (Fin 0) (Fin 1)) (samples ?b) = [Fin (1 / 2), Fin 0]"
    by (simp add: clip_cases)
  show ?thesis
    using h1 h2 create_merge_swap [OF h1 h2 h3 h4] unfolding rep ca cb by blast
qed




section \<open>load_and_normalize\<close>

lemma bit_length_le: "n < 2 ^ k \<Longrightarrow> bit_length n \<le> k"
proof (induction k arbitrary: n)
  case 0
  then show ?case by (simp add: bit_length.simps)
next
  case (Suc k)
  show ?case
  proof (cases "n = 0")
    case True
    then show ?thesis by (simp add: bit_length.simps)
  next
    case False
    from Suc.prems have "n div 2 < 2 ^ k" by simp
    then have "bit_length (n div 2) \<le> k" by (rule Suc.IH)
    then show ?thesis using False by (subst bit_length.simps) simp
  qed
qed

lemma round53_small: "n < 2 ^ 53 \<Longrightarrow> round53 n = n"
  using bit_length_le [of n 53] by (simp add: round53_def)

lemma int_to_f64_nat: "n < 2 ^ 53 \<Longrightarrow> int_to_f64 (int n) = Fin (real n)"
proof -
  assume n: "n < 2 ^ 53"
  have "real n < 2 ^ 53" using n by (metis of_nat_less_iff of_nat_numeral of_nat_power)
  moreover have "(2::real) ^ 53 \<le> 2 ^ 970" by simp
  moreover have "(2::real) ^ 970 + 2 ^ 970 \<le> 2 ^ 1024" by simp
  ultimately have "real n < f64_overflow" by (simp add: f64_overflow_def)
  then show ?thesis using n by (simp add: int_to_f64_def round53_small ovf_def)
qed

lemma normalize_returns:
  assumes "samples img \<noteq> []"
  shows "\<exists>r. normalize img = Inr r \<and> nrows r = nrows img \<and> ncols r = ncols img
           \<and> length (samples r) = length (samples img)"
  using assms by (simp add: normalize_def normalize_steps_def Let_def)

lemma example_image:
  "normalize (astype_float (IntPixels \<lparr>nrows = 1, ncols = 2, samples = [3, 7]\<rparr>))
     = Inr \<lparr>nrows = 1, ncols = 2, samples = [Fin 0, Fin 1]\<rparr>"
proof -
  have c3: "int_to_f64 3 = Fin 3" using int_to_f64_nat [of 3] by simp
  have c7: "int_to_f64 7 = Fin 7" using int_to_f64_nat [of 7] by simp
  have f1: "ovf 4 = Fin 4" using f64_overflow_gt_one by (simp add: f64_overflow_def ovf_def)
  show ?thesis
    by (simp add: normalize_def normalize_steps_def Let_def c3 c7 amin_def amax_def
        fmin_Fin fmax_Fin ovf_zero f1 ovf_unit)
qed

text \<open>
  Claim C3, as the code has it. A path whose read raises FileNotFoundError does not raise
  to the caller: the failure is printed and the all-zero 100 by 100 placeholder is returned.
  A read that fails with any other exception (an unreadable file) raises that exception
  to the caller and prints nothing. A path that loads returns the decoded array converted
  to floating point and then normalised; when the decoded array has samples this does not
  raise and keeps the shape.
\<close>

theorem load_and_normalize_outcomes:
  "(imread p = Inl FileNotFoundError \<longrightarrow>
      load_and_normalize imread p
        = ([Print (''Error: File not found: '' @ p)], Inr (zeros 100 100))
      \<and> nrows (zeros 100 100) = 100 \<and> ncols (zeros 100 100) = 100
      \<and> samples (zeros 100 100) = replicate 10000 (Fin 0))
   \<and> (\<forall>e. imread p = Inl e \<and> e \<noteq> FileNotFoundError \<longrightarrow>
        load_and_normalize imread p = ([], Inl e))
   \<and> (\<forall>d. imread p = Inr d \<longrightarrow>
        load_and_normalize imread p = ([], normalize (astype_float d))
        \<and> (samples (astype_float d) \<noteq> [] \<longrightarrow>
             (\<exists>r. load_and_normalize imread p = ([], Inr r)
                \<and> nrows r = nrows (astype_float d) \<and> ncols r = ncols (astype_float d))))"
proof (intro conjI impI allI)
  assume "imread p = Inl FileNotFoundError"
  then show "load_and_normalize imread p
      = ([Print (''Error: File not found: '' @ p)], Inr (zeros 100 100))"
    by (simp add: load_and_normalize_def bind_io_def emit_def ret_def)
next
  show "nrows (zeros 100 100) = 100" by (simp add: zeros_def)
next
  show "ncols (zeros 100 100) = 100" by (simp add: zeros_def)
next
  show "samples (zeros 100 100) = replicate 10000 (Fin 0)" by (simp add: zeros_def)
next
  fix e assume "imread p = Inl e \<and> e \<noteq> FileNotFoundError"
  then show "load_and_normalize imread p = ([], Inl e)"
    by (simp add: load_and_normalize_def raise_def)
next
  fix d assume "imread p = Inr d"
  then show "load_and_normalize imread p = ([], normalize (astype_float d))"
    by (simp add: load_and_normalize_def lift_def)
next
  fix d assume d: "imread p = Inr d" and ne: "samples (astype_float d) \<noteq> []"
  from normalize_returns [OF ne] obtain r where "normalize (astype_float d) = Inr r"
    and "nrows r = nrows (astype_float d)" and "ncols r = ncols (astype_float d)" by blast
  then show "\<exists>r. load_and_normalize imread p = ([], Inr r)
      \<and> nrows r = nrows (astype_float d) \<and> ncols r = ncols (astype_float d)"
    using d by (simp add: load_and_normalize_def lift_def)
qed

theorem load_and_normalize_outcomes_witness:
  "example_reader ''missing.tif'' = Inl FileNotFoundError
   \<and> load_and_normalize example_reader ''missing.tif''
       = ([Print ''Error: File not found: missing.tif''], Inr (zeros 100 100))
   \<and> example_reader ''locked.tif'' = Inl PermissionError
   \<and> load_and_normalize example_reader ''locked.tif'' = ([], Inl PermissionError)
   \<and> example_reader ''a_green.tif''
       = Inr (IntPixels \<lparr>nrows = 1, ncols = 2, samples = [3, 7]\<rparr>)
   \<and> load_and_normalize example_reader ''a_green.tif''
       = ([], Inr \<lparr>nrows = 1, ncols = 2, samples = [Fin 0, Fin 1]\<rparr>)"
proof -
  have m: "example_reader ''missing.tif'' = Inl FileNotFoundError"
    by (simp add: example_reader_def)
  have l: "example_reader ''locked.tif'' = Inl PermissionError"
    by (simp add: example_reader_def)
  have a: "example_reader ''a_green.tif''
      = Inr (IntPixels \<lparr>nrows = 1, ncols = 2, samples = [3, 7]\<rparr>)"
    by (simp add: example_reader_def)
  have r1: "load_and_normalize example_reader ''missing.tif''
      = ([Print ''Error: File not found: missing.tif''], Inr (zeros 100 100))"
    using load_and_normalize_outcomes [of example_reader "''missing.tif''"] m by simp
  have r2: "load_and_normalize example_reader ''locked.tif'' = ([], Inl PermissionError)"
    using load_and_normalize_outcomes [of example_reader "''locked.tif''"] l by simp
  have r3: "load_and_normalize example_reader ''a_green.tif''
      = ([], Inr \<lparr>nrows = 1, ncols = 2, samples = [Fin 0, Fin 1]\<rparr>)"
    using load_and_normalize_outcomes [of example_reader "''a_green.tif''"] a example_image
    by simp
  from m l a r1 r2 r3 show ?thesis by blast
qed

text \<open>
  Claim C3 as stated fails for a file that exists but cannot be read: the read raises
  PermissionError, the handler catches FileNotFoundError only, and the exception reaches
  the caller with nothing printed and no placeholder returned. It also fails on the
  success path, where the array returned is the normalised one (samples 0 and 1), not
  the decoded samples 3 and 7 converted to floating point.
\<close>

theorem load_and_normalize_unreadable_counterexample:
  "example_reader ''locked.tif'' = Inl PermissionError
   \<and> load_and_normalize example_reader ''locked.tif'' = ([], Inl PermissionError)
   \<and> example_reader ''a_green.tif''
       = Inr (IntPixels \<lparr>nrows = 1, ncols = 2, samples = [3, 7]\<rparr>)
   \<and> astype_float (IntPixels \<lparr>nrows = 1, ncols = 2, samples = [3, 7]\<rparr>)
       = \<lparr>nrows = 1, ncols = 2, samples = [Fin 3, Fin 7]\<rparr>
   \<and> load_and_normalize example_reader ''a_green.tif''
       = ([], Inr \<lparr>nrows = 1, ncols = 2, samples = [Fin 0, Fin 1]\<rparr>)"
proof -
  have c3: "int_to_f64 3 = Fin 3" using int_to_f64_nat [of 3] by simp
  have c7: "int_to_f64 7 = Fin 7" using int_to_f64_nat [of 7] by simp
  have l: "example_reader ''locked.tif'' = Inl PermissionError"
    by (simp add: example_reader_def)
  have a: "example_reader ''a_green.tif''
      = Inr (IntPixels \<lparr>nrows = 1, ncols = 2, samples = [3, 7]\<rparr>)"
    by (simp add: example_reader_def)
  have r2: "load_and_normalize example_reader ''locked.tif'' = ([], Inl PermissionError)"
    by (simp add: load_and_normalize_def l raise_def)
  have conv: "astype_float (IntPixels \<lparr>nrows = 1, ncols = 2, samples = [3, 7]\<rparr>)
      = \<lparr>nrows = 1, ncols = 2, samples = [Fin 3, Fin 7]\<rparr>"
    by (simp add: c3 c7)
  have r3: "load_and_normalize example_reader ''a_green.tif''
      = ([], Inr \<lparr>nrows = 1, ncols = 2, samples = [Fin 0, Fin 1]\<rparr>)"
    unfolding load_and_normalize_def a
    by (simp only: sum.case lift_def example_image)
  from l r2 a conv r3 show ?thesis by blast
qed


section \<open>Facts about computations with effects\<close>

lemma snd_bind_io:
  "snd (bind_io m f) = (case snd m of Inl e \<Rightarrow> Inl e | Inr x \<Rightarrow> snd (f x))"
  by (cases m) (auto simp: bind_io_def split: sum.splits prod.splits)

lemma fst_bind_io:
  "fst (bind_io m f) = (case snd m of Inl e \<Rightarrow> fst m | Inr x \<Rightarrow> fst m @ fst (f x))"
  by (cases m) (auto simp: bind_io_def split: sum.splits prod.splits)

lemma io_simps:
  "snd (ret x) = Inr x" "fst (ret x) = []"
  "snd (raise e) = Inl e" "fst (raise e) = []"
  "snd (emit ev) = Inr ()" "fst (emit ev) = [ev]"
  "snd (lift r) = r" "fst (lift r) = []"
  by (simp_all add: ret_def raise_def emit_def lift_def)

lemma index_py_simps:
  "snd (index_py xs i) = (if i < length xs then Inr (xs ! i) else Inl IndexError)"
  "fst (index_py xs i) = []"
  by (simp_all add: index_py_def ret_def raise_def)

lemma axes_at_events: "fst (axes_at axes r c) = []"
  by (cases axes) (simp_all add: axes_at_def Let_def ret_def raise_def)



lemma finish_simps:
  "snd finish = Inr ()"
  "fst finish = [FigText ''B'', Savefig ''final_figure.png'',
                 Print ''Done! Saved as final_figure.png'', Show]"
  by (simp_all add: finish_def snd_bind_io fst_bind_io io_simps)


section \<open>The scale bar\<close>










section \<open>The example run\<close>

lemma load_example:
  assumes "p \<noteq> ''missing.tif''" and "p \<noteq> ''locked.tif''"
  shows "load_and_normalize example_reader p = ([], Inr unit_ramp)"
proof -
  have a: "example_reader p = Inr (IntPixels \<lparr>nrows = 1, ncols = 2, samples = [3, 7]\<rparr>)"
    using assms by (simp add: example_reader_def)
  show ?thesis
    unfolding load_and_normalize_def a unit_ramp_def
    by (simp only: sum.case lift_def example_image)
qed

lemma example_panels:
  "colorize unit_ramp ''green'' = Inr ramp_green"
  "colorize unit_ramp ''red'' = Inr ramp_red"
  "create_merge unit_ramp unit_ramp = Inr ramp_merge"
proof -
  have wf: "wf_array unit_ramp" by (simp add: wf_array_def unit_ramp_def)
  show "colorize unit_ramp ''green'' = Inr ramp_green"
    using assign_channel_zeros3 [OF wf, of 1]
    by (simp add: colorize_def Let_def ramp_green_def) (simp add: unit_ramp_def)
  show "colorize unit_ramp ''red'' = Inr ramp_red"
    using assign_channel_zeros3 [OF wf, of 0]
    by (simp add: colorize_def Let_def ramp_red_def) (simp add: unit_ramp_def)
  show "create_merge unit_ramp unit_ramp = Inr ramp_merge"
    using create_merge_same_shape [OF wf, of unit_ramp]
    by (simp add: ramp_merge_def) (simp add: unit_ramp_def clip_cases)
qed

lemma example_paths:
  "load_and_normalize example_reader ''a_green.tif'' = ([], Inr unit_ramp)"
  "load_and_normalize example_reader ''a_red.tif'' = ([], Inr unit_ramp)"
  "load_and_normalize example_reader ''b_green.tif'' = ([], Inr unit_ramp)"
  "load_and_normalize example_reader ''b_red.tif'' = ([], Inr unit_ramp)"
  by (simp_all add: load_example)

lemma example_columns: "[0..<2] = [0, Suc 0]"
  by (simp add: upt_rec)







section \<open>Inconsistent configurations\<close>

lemma failed_iff: "failed m \<longleftrightarrow> (\<exists>e. snd m = Inl e)"
  by (cases "snd m") (simp_all add: failed_def)

lemma failed_not_Inr: "failed m \<Longrightarrow> snd m \<noteq> Inr x"
  by (auto simp: failed_def)

lemma column_body_short:
  assumes "length (file_matrix cfg) < 2 \<or> length (file_matrix cfg ! 0) \<le> k
             \<or> length (file_matrix cfg ! 1) \<le> k"
  shows "failed (column_body cfg imread axes k)"
  using assms
  by (auto simp: failed_def column_body_def snd_bind_io index_py_simps io_simps
      split: sum.splits)

lemma row_labels_step_short:
  assumes "length (ROW_LABELS cfg) < 3"
  shows "failed (row_labels_step cfg ax_g ax_r ax_m)"
  using assms
  by (auto simp: failed_def row_labels_step_def snd_bind_io index_py_simps io_simps
      split: sum.splits)

lemma place_column_first_short:
  assumes "length (ROW_LABELS cfg) < 3"
  shows "failed (place_column cfg axes 0 vis_green vis_red vis_merge)"
proof -
  have "\<And>ax_g ax_r ax_m. snd (row_labels_step cfg ax_g ax_r ax_m) \<noteq> Inr ()"
    by (rule failed_not_Inr [OF row_labels_step_short [OF assms] ])
  then show ?thesis
    by (auto simp: failed_def place_column_def snd_bind_io io_simps split: sum.splits)
qed

lemma column_body_first_short:
  assumes "length (ROW_LABELS cfg) < 3"
  shows "failed (column_body cfg imread axes 0)"
proof -
  have "\<And>g r m. snd (place_column cfg axes 0 g r m) \<noteq> Inr ()"
    by (rule failed_not_Inr [OF place_column_first_short [OF assms] ])
  then show ?thesis
    by (auto simp: failed_def column_body_def snd_bind_io io_simps split: sum.splits)
qed

lemma columns_loop_fails:
  assumes "k \<in> set cols" and "failed (column_body cfg imread axes k)"
  shows "failed (columns_loop cfg imread axes cols st)"
  using assms
proof (induction cols arbitrary: st)
  case Nil
  then show ?case by simp
next
  case (Cons c rest)
  show ?case
  proof (cases "snd (column_body cfg imread axes c)")
    case (Inl e)
    then show ?thesis by (simp add: failed_def snd_bind_io)
  next
    case (Inr g)
    then have "k \<noteq> c" using Cons.prems(2) by (auto simp: failed_def)
    then have "k \<in> set rest" using Cons.prems(1) by simp
    then have "failed (columns_loop cfg imread axes rest (Some g))"
      using Cons.IH Cons.prems(2) by blast
    then show ?thesis using Inr by (simp add: failed_def snd_bind_io)
  qed
qed

lemma generate_figure_fails:
  assumes "\<And>axes. failed (columns_loop cfg imread axes [0..<length (COL_LABELS cfg)] None)"
  shows "failed (generate_figure cfg imread)"
proof -
  have "\<And>axes st. snd (columns_loop cfg imread axes [0..<length (COL_LABELS cfg)] None) \<noteq> Inr st"
    by (rule failed_not_Inr [OF assms])
  then show ?thesis
    by (auto simp: failed_def generate_figure_def Let_def snd_bind_io io_simps
        split: sum.splits)
qed

lemma generate_figure_no_columns:
  assumes "COL_LABELS cfg = []"
  shows "failed (generate_figure cfg imread)"
  using assms
  by (simp add: failed_def generate_figure_def Let_def snd_bind_io subplots_def io_simps)

lemma not_saves_bind:
  assumes "\<not> saves m" and "\<And>x. \<not> saves (f x)"
  shows "\<not> saves (bind_io m f)"
  using assms by (cases "snd m") (auto simp: saves_def fst_bind_io)

lemma failed_not_saves_bind:
  assumes "\<not> saves m" and "\<And>x. failed (f x) \<longrightarrow> \<not> saves (f x)"
  shows "failed (bind_io m f) \<longrightarrow> \<not> saves (bind_io m f)"
  using assms by (cases "snd m") (auto simp: saves_def failed_def fst_bind_io snd_bind_io)

lemma not_saves_simps:
  "\<not> saves (ret x)" "\<not> saves (raise e)" "\<not> saves (lift r)"
  "\<not> saves (index_py xs i)" "\<not> saves (axes_at axes r' c)"
  "\<not> saves (emit (Print s))" "\<not> saves (emit (Subplots a b))" "\<not> saves (emit SubplotsAdjust)"
  "\<not> saves (emit (Imshow ax im))" "\<not> saves (emit (ClearAxes ax))"
  "\<not> saves (emit (AxText ax s))" "\<not> saves (emit (SetTitle ax s))"
  "\<not> saves (emit (AddPatch ax rc))"
  by (simp_all add: saves_def io_simps index_py_simps axes_at_events)

lemma not_saves_load: "\<not> saves (load_and_normalize imread p)"
proof -
  have a: "\<not> saves (bind_io (emit (Print s)) (\<lambda>_. ret z))" for s and z :: "f64 ndarray"
    by (intro not_saves_bind not_saves_simps)
  show ?thesis
    by (simp add: load_and_normalize_def a not_saves_simps split: sum.splits)
qed

lemma not_saves_row_labels: "\<not> saves (row_labels_step cfg ax_g ax_r ax_m)"
  unfolding row_labels_step_def
  by (intro not_saves_bind not_saves_simps)

lemma not_saves_place: "\<not> saves (place_column cfg axes k g r m)"
  unfolding place_column_def
  by (intro not_saves_bind) (simp_all add: not_saves_simps not_saves_row_labels)

lemma not_saves_column: "\<not> saves (column_body cfg imread axes k)"
  unfolding column_body_def
  by (intro not_saves_bind not_saves_simps not_saves_load not_saves_place)

lemma not_saves_loop: "\<not> saves (columns_loop cfg imread axes cols st)"
proof (induction cols arbitrary: st)
  case Nil
  show ?case by (simp add: not_saves_simps)
next
  case (Cons c rest)
  show ?case
    unfolding columns_loop.simps
    by (intro not_saves_bind not_saves_column Cons.IH)
qed

lemma not_saves_scale_bar: "\<not> saves (scale_bar_step cfg axes st)"
  unfolding scale_bar_step_def
  by (intro not_saves_bind) (auto simp: not_saves_simps split: option.splits)

lemma not_saves_subplots: "\<not> saves (subplots r c)"
proof (cases "r = 0 \<or> c = 0")
  case True
  then show ?thesis by (simp add: subplots_def not_saves_simps)
next
  case False
  have "\<not> saves (bind_io (emit (Subplots r c)) (\<lambda>_. ret z))" for z :: axes_grid
    by (intro not_saves_bind not_saves_simps)
  then show ?thesis using False by (simp add: subplots_def)
qed

lemma failed_run_not_saved:
  "failed (generate_figure cfg imread) \<longrightarrow> \<not> saves (generate_figure cfg imread)"
  unfolding generate_figure_def Let_def
  by (intro failed_not_saves_bind allI)
    (simp_all add: not_saves_simps not_saves_subplots not_saves_loop not_saves_scale_bar
      failed_def finish_simps)

text \<open>
  Claim C8, as the code has it. The script validates nothing before it starts. When a
  configuration list is too short (no condition label, fewer than three row labels,
  fewer than two file rows, or a file row with fewer paths than there are condition
  labels) the run ends in an exception and never reaches \<open>plt.savefig\<close>, so no output
  file is written. The exception is raised where the missing entry is first read, which
  can be after the figure has been created and earlier panels have been drawn.
\<close>

theorem generate_figure_short_config:
  assumes "COL_LABELS cfg = [] \<or> length (ROW_LABELS cfg) < 3
             \<or> length (file_matrix cfg) < 2
             \<or> length (file_matrix cfg ! 0) < length (COL_LABELS cfg)
             \<or> length (file_matrix cfg ! 1) < length (COL_LABELS cfg)"
  shows "(\<exists>e. snd (generate_figure cfg imread) = Inl e)
           \<and> (\<forall>f. Savefig f \<notin> set (fst (generate_figure cfg imread)))"
proof -
  let ?n = "length (COL_LABELS cfg)"
  have f: "failed (generate_figure cfg imread)"
  proof (cases "COL_LABELS cfg = []")
    case True
    then show ?thesis by (rule generate_figure_no_columns)
  next
    case False
    then have n: "0 < ?n" by simp
    have "\<exists>k < ?n. \<forall>axes. failed (column_body cfg imread axes k)"
    proof -
      from assms False consider
          (rows) "length (ROW_LABELS cfg) < 3"
        | (matrix) "length (file_matrix cfg) < 2"
        | (green) "length (file_matrix cfg ! 0) < ?n"
        | (red) "length (file_matrix cfg ! 1) < ?n"
        by blast
      then show ?thesis
      proof cases
        case rows
        then show ?thesis using n column_body_first_short by blast
      next
        case matrix
        then show ?thesis using n column_body_short by blast
      next
        case green
        then show ?thesis using column_body_short [of cfg "length (file_matrix cfg ! 0)"]
          by blast
      next
        case red
        then show ?thesis using column_body_short [of cfg "length (file_matrix cfg ! 1)"]
          by blast
      qed
    qed
    then obtain k where k: "k < ?n" and b: "\<And>axes. failed (column_body cfg imread axes k)"
      by blast
    from k have "k \<in> set [0..<?n]" by simp
    then have "\<And>axes. failed (columns_loop cfg imread axes [0..<?n] None)"
      using b by (rule columns_loop_fails)
    then show ?thesis by (rule generate_figure_fails)
  qed
  then have "\<not> saves (generate_figure cfg imread)" using failed_run_not_saved by blast
  with f show ?thesis by (simp add: failed_iff saves_def)
qed

theorem generate_figure_short_config_witness:
  "length (file_matrix short_config ! 0) < length (COL_LABELS short_config)
   \<and> (\<exists>e. snd (generate_figure short_config example_reader) = Inl e)
   \<and> \<not> saves (generate_figure short_config example_reader)"
proof -
  have h: "length (file_matrix short_config ! 0) < length (COL_LABELS short_config)"
    by (simp add: short_config_def example_config_def)
  then have "COL_LABELS short_config = [] \<or> length (ROW_LABELS short_config) < 3
      \<or> length (file_matrix short_config) < 2
      \<or> length (file_matrix short_config ! 0) < length (COL_LABELS short_config)
      \<or> length (file_matrix short_config ! 1) < length (COL_LABELS short_config)"
    by blast
  from generate_figure_short_config [OF this, of example_reader] h
  show ?thesis by (simp add: saves_def)
qed

text \<open>
  Claim C8 as stated fails on a configuration with two condition labels and a single
  path in the green row: the figure is created and the three panels of the first column
  are drawn, labelled and titled before the second column raises IndexError.
\<close>

theorem generate_figure_partial_counterexample:
  "COL_LABELS short_config = [''A'', ''B'']
   \<and> file_matrix short_config = [ [''a_green.tif''], [''a_red.tif'', ''b_red.tif''] ]
   \<and> generate_figure short_config example_reader
       = ([Subplots 3 2, SubplotsAdjust, Print ''Generating figure...'',
           Imshow (0, 0) ramp_green, Imshow (1, 0) ramp_red, Imshow (2, 0) ramp_merge,
           ClearAxes (0, 0), ClearAxes (1, 0), ClearAxes (2, 0),
           AxText (0, 0) ''G'', AxText (1, 0) ''R'', AxText (2, 0) ''M'',
           SetTitle (0, 0) ''A''],
          Inl IndexError)"
proof -
  have c: "COL_LABELS short_config = [''A'', ''B'']"
    by (simp add: short_config_def example_config_def)
  have m: "file_matrix short_config = [ [''a_green.tif''], [''a_red.tif'', ''b_red.tif''] ]"
    by (simp add: short_config_def example_config_def)
  have s: "snd (generate_figure short_config example_reader) = Inl IndexError"
    by (simp add: generate_figure_def Let_def short_config_def example_config_def
        subplots_def example_columns column_body_def place_column_def row_labels_step_def
        snd_bind_io io_simps index_py_simps example_paths example_panels axes_at_def)
  have e: "fst (generate_figure short_config example_reader)
      = [Subplots 3 2, SubplotsAdjust, Print ''Generating figure...'',
         Imshow (0, 0) ramp_green, Imshow (1, 0) ramp_red, Imshow (2, 0) ramp_merge,
         ClearAxes (0, 0), ClearAxes (1, 0), ClearAxes (2, 0),
         AxText (0, 0) ''G'', AxText (1, 0) ''R'', AxText (2, 0) ''M'',
         SetTitle (0, 0) ''A'']"
    by (simp add: generate_figure_def Let_def short_config_def example_config_def
        subplots_def example_columns column_body_def place_column_def row_labels_step_def
        snd_bind_io fst_bind_io io_simps index_py_simps example_paths example_panels
        axes_at_def)
  have "generate_figure short_config example_reader
      = (fst (generate_figure short_config example_reader),
         snd (generate_figure short_config example_reader))" by simp
  with c m s e show ?thesis by simp
qed


end
